theory Spec2Isabelle
  imports Main
begin

section \<open>The JavaScript values the stack definition computes with\<close>

text \<open>
  The repository is one class, \<open>HereyaClaudeAgentStack\<close> in
  \<open>lib/hereya-claude-agent-stack.ts\<close>, whose constructor reads \<open>process.env\<close> and declares
  the resources of the stack. This section embeds the JavaScript operations the constructor
  uses on strings and numbers; the sections after it embed the constructs it declares and
  the constructor itself.

  Strings are lists of 8-bit characters, read as code units below 256 (the Latin-1 range);
  code units beyond that range are outside the model.
\<close>

subsection \<open>process.env and the \<open>||\<close> default\<close>

type_synonym env = "string \<rightharpoonup> string"

text \<open>\<open>process.env.X || d\<close>: an unset variable is \<open>undefined\<close>, and both \<open>undefined\<close> and
  the empty string are falsy.\<close>

definition or_default :: "string option \<Rightarrow> string \<Rightarrow> string" where
  "or_default v d = (case v of None \<Rightarrow> d | Some s \<Rightarrow> if s = [] then d else s)"

subsection \<open>Numbers\<close>

text \<open>
  A JavaScript number is a double. The constructor only ever holds the result of
  \<open>parseInt\<close> and of one multiplication by 6, so a number is modelled as \<open>NaN\<close>, an
  integer \<open>Num n\<close> of magnitude at most \<open>2 ^ 53\<close> (where doubles are exact; \<open>-0\<close> is
  identified with \<open>0\<close>), or \<open>Untracked\<close>: a double beyond that range, about whose value
  the model says nothing.
\<close>

datatype number = NaN | Num int | Untracked

definition to_number :: "int \<Rightarrow> number" where
  "to_number n = (if \<bar>n\<bar> \<le> 2 ^ 53 then Num n else Untracked)"

text \<open>The operator \<open>*\<close>.\<close>

fun times_js :: "number \<Rightarrow> number \<Rightarrow> number" where
  "times_js (Num x) (Num y) = to_number (x * y)"
| "times_js NaN _ = NaN"
| "times_js _ NaN = NaN"
| "times_js _ _ = Untracked"

subsection \<open>parseInt\<close>

text \<open>The white space and line terminators of ECMAScript below code unit 256.\<close>

definition isWhiteSpace :: "char \<Rightarrow> bool" where
  "isWhiteSpace c = (of_char c \<in> {9, 10, 11, 12, 13, 32, 160 :: nat})"

text \<open>The value of a digit or letter as a digit of some radix: \<open>0-9\<close>, then \<open>a-z\<close> or
  \<open>A-Z\<close> for 10 to 35.\<close>

definition digitValue :: "char \<Rightarrow> nat option" where
  "digitValue c =
     (let n = (of_char c :: nat)
      in if 48 \<le> n \<and> n \<le> 57 then Some (n - 48)
         else if 97 \<le> n \<and> n \<le> 122 then Some (n - 87)
         else if 65 \<le> n \<and> n \<le> 90 then Some (n - 55)
         else None)"

definition isRadixDigit :: "nat \<Rightarrow> char \<Rightarrow> bool" where
  "isRadixDigit R c = (case digitValue c of None \<Rightarrow> False | Some d \<Rightarrow> d < R)"

text \<open>The mathematical integer that a string of radix-\<open>R\<close> digits denotes, most significant
  digit first.\<close>

fun mathInt :: "nat \<Rightarrow> nat \<Rightarrow> string \<Rightarrow> nat" where
  "mathInt R acc [] = acc"
| "mathInt R acc (c # cs) =
     mathInt R (acc * R + (case digitValue c of None \<Rightarrow> 0 | Some d \<Rightarrow> d)) cs"

text \<open>
  \<open>parseInt(string, radix)\<close>, step by step as ECMAScript defines it: trim leading white
  space, read a sign, settle the radix (0 means 10; outside 2..36 the result is \<open>NaN\<close>),
  strip a \<open>0x\<close> prefix when the radix is 16 or was 0, take the longest prefix of digits, and
  return \<open>NaN\<close> when that prefix is empty.
\<close>

definition parseInt :: "string \<Rightarrow> nat \<Rightarrow> number" where
  "parseInt string radix =
     (let S = dropWhile isWhiteSpace string;
          sign = (case S of c # _ \<Rightarrow> if c = CHR ''-'' then - 1 else 1 | [] \<Rightarrow> (1::int));
          S = (case S of c # r \<Rightarrow> if c = CHR ''+'' \<or> c = CHR ''-'' then r else S | [] \<Rightarrow> S)
      in if radix \<noteq> 0 \<and> (radix < 2 \<or> 36 < radix) then NaN
         else
           let stripPrefix = (radix = 0 \<or> radix = 16);
               R = (if radix = 0 then 10 else radix);
               hex = (stripPrefix \<and> (take 2 S = ''0x'' \<or> take 2 S = ''0X''));
               S = (if hex then drop 2 S else S);
               R = (if hex then 16 else R);
               Z = takeWhile (isRadixDigit R) S
           in if Z = [] then NaN else to_number (sign * int (mathInt R 0 Z)))"

subsection \<open>String operations\<close>

text \<open>\<open>toLowerCase\<close> on code units below 256: the letters \<open>A-Z\<close> and the upper-case Latin-1
  letters (\<open>0xC0-0xDE\<close> but for the multiplication sign \<open>0xD7\<close>) move up by 32.\<close>

definition toLowerChar :: "char \<Rightarrow> char" where
  "toLowerChar c =
     (let n = (of_char c :: nat)
      in if (65 \<le> n \<and> n \<le> 90) \<or> (192 \<le> n \<and> n \<le> 214) \<or> (216 \<le> n \<and> n \<le> 222)
         then char_of (n + 32) else c)"

definition toLowerCase :: "string \<Rightarrow> string" where
  "toLowerCase s = map toLowerChar s"

text \<open>\<open>s.split(sep)\<close> for a one-character separator: the pieces between the separators,
  never an empty array (\<open>''.split('/')\<close> is \<open>['']\<close>).\<close>

fun split :: "string \<Rightarrow> char \<Rightarrow> string list" where
  "split [] sep = [[]]"
| "split (c # cs) sep =
     (if c = sep then [] # split cs sep
      else (case split cs sep of [] \<Rightarrow> [[c]] | w # ws \<Rightarrow> (c # w) # ws))"

text \<open>\<open>a.slice(start)\<close> for a start index within \<open>0..length\<close> or beyond.\<close>

definition slice :: "'a list \<Rightarrow> nat \<Rightarrow> 'a list" where
  "slice a start = drop start a"

text \<open>\<open>a.join(sep)\<close>.\<close>

fun join :: "string list \<Rightarrow> string \<Rightarrow> string" where
  "join [] sep = []"
| "join [x] sep = x"
| "join (x # y # ys) sep = x @ sep @ join (y # ys) sep"

text \<open>
  The array pattern \<open>const [a, b = d] = parts\<close>: \<open>a\<close> is the first element (\<open>undefined\<close>,
  here \<open>None\<close>, when there is none) and \<open>b\<close> the second, or \<open>d\<close> when there is no second.
\<close>

fun destructure2 :: "string list \<Rightarrow> string \<Rightarrow> string option \<times> string" where
  "destructure2 [] d = (None, d)"
| "destructure2 [a] d = (Some a, d)"
| "destructure2 (a # b # _) d = (Some a, b)"

section \<open>The construct library, as far as the stack definition uses it\<close>

text \<open>
  The classes of \<open>aws-cdk-lib\<close> are not code of this repository. A construct is declared,
  not computed: \<open>new C(scope, id, props)\<close> registers under \<open>scope\<close> a child called \<open>id\<close>
  that holds \<open>props\<close>, and that is all the model keeps of it. What the library checks on
  its own (the syntax of a bucket or stack name, the sign of a duration) and what it
  derives at synthesis (roles, policies, logical ids) is outside this development.

  An attribute of a declared resource such as \<open>inputBucket.bucketArn\<close> is a token that the
  deployment resolves; it is kept symbolic as \<open>Attr id name\<close>. A template literal is the
  list of its pieces.
\<close>

datatype error = Error string

datatype token = Lit string | Attr string string | ThisRegion

type_synonym tstring = "token list"

datatype RemovalPolicy = DESTROY | RETAIN

datatype BlockPublicAccess = BLOCK_ALL

datatype BucketEncryption = S3_MANAGED

datatype Effect = ALLOW | DENY

datatype TimeUnit = Seconds | Days

datatype Duration = Duration number TimeUnit

definition Duration_seconds :: "number \<Rightarrow> Duration" where
  "Duration_seconds amount = Duration amount Seconds"

definition Duration_days :: "number \<Rightarrow> Duration" where
  "Duration_days amount = Duration amount Days"

record BucketProps =
  bucketName :: string
  versioned :: bool
  removalPolicy :: RemovalPolicy
  autoDeleteObjects :: bool
  blockPublicAccess :: BlockPublicAccess
  encryption :: BucketEncryption

record QueueProps =
  queueName :: string
  visibilityTimeout :: Duration
  retentionPeriod :: Duration

text \<open>\<open>DockerImageCode.fromEcr(repository, {tagOrDigest})\<close>, the repository named by its
  construct id.\<close>

datatype DockerImageCode = fromEcr string string

record DockerImageFunctionProps =
  functionName :: string
  code :: DockerImageCode
  memorySize :: number
  timeout :: Duration
  environment :: "(string \<times> tstring) list"

record PolicyStatement =
  effect :: Effect
  actions :: "string list"
  resources :: "tstring list"

record PolicyDocument =
  statements :: "PolicyStatement list"

text \<open>The value of an output: a string, or \<open>JSON.stringify(doc.toJSON())\<close> of a policy
  document, kept as the document.\<close>

datatype OutputValue = Text tstring | Json PolicyDocument

record CfnOutputProps =
  outputValue :: OutputValue
  description :: string

text \<open>\<open>Repository\<close> is \<open>ecr.Repository.fromRepositoryName(scope, id, name)\<close>.\<close>

datatype Construct =
    Bucket BucketProps
  | Queue QueueProps
  | Repository "string option"
  | DockerImageFunction DockerImageFunctionProps
  | CfnOutput CfnOutputProps

datatype Grant =
    GrantRead string string
  | GrantWrite string string
  | GrantSendMessages string string

record SqsEventSourceProps =
  batchSize :: nat

datatype EventSource = SqsEventSource string SqsEventSourceProps

text \<open>The stack under construction: its name, its children in the order of their
  declaration, the grants made and the event sources attached (function id first).\<close>

record Stack =
  stackName :: string
  children :: "(string \<times> Construct) list"
  grants :: "Grant list"
  eventSources :: "(string \<times> EventSource) list"

text \<open>\<open>super(scope, id, props)\<close> with no \<open>stackName\<close> in \<open>props\<close>, for a stack directly
  under the app: the stack is named by its id and has no child yet.\<close>

definition super :: "string \<Rightarrow> Stack" where
  "super stackId = \<lparr>stackName = stackId, children = [], grants = [], eventSources = []\<rparr>"

definition new :: "Stack \<Rightarrow> string \<Rightarrow> Construct \<Rightarrow> Stack" where
  "new this cid c = this\<lparr>children := children this @ [(cid, c)]\<rparr>"

definition grantRead :: "Stack \<Rightarrow> string \<Rightarrow> string \<Rightarrow> Stack" where
  "grantRead this resource grantee = this\<lparr>grants := grants this @ [GrantRead resource grantee]\<rparr>"

definition grantWrite :: "Stack \<Rightarrow> string \<Rightarrow> string \<Rightarrow> Stack" where
  "grantWrite this resource grantee = this\<lparr>grants := grants this @ [GrantWrite resource grantee]\<rparr>"

definition grantSendMessages :: "Stack \<Rightarrow> string \<Rightarrow> string \<Rightarrow> Stack" where
  "grantSendMessages this resource grantee =
     this\<lparr>grants := grants this @ [GrantSendMessages resource grantee]\<rparr>"

definition addEventSource :: "Stack \<Rightarrow> string \<Rightarrow> EventSource \<Rightarrow> Stack" where
  "addEventSource this fn source = this\<lparr>eventSources := eventSources this @ [(fn, source)]\<rparr>"

section \<open>The stack definition\<close>

text \<open>
  The constructor of \<open>HereyaClaudeAgentStack\<close>, statement by statement. Its inputs are
  \<open>process.env\<close> and the id it is constructed with (\<open>process.env.STACK_NAME\<close> in
  \<open>bin\<close>); it throws (\<open>Inl\<close>) or returns the stack with everything declared in it
  (\<open>Inr\<close>). The local names are those of the source; a declared construct is referred to
  by its id.
\<close>

definition HereyaClaudeAgentStack :: "env \<Rightarrow> string \<Rightarrow> error + Stack" where
  "HereyaClaudeAgentStack process_env stackId =
     (let this = super stackId;
          prefix = or_default (process_env ''namePrefix'') ''agent'';
          imageUri = process_env ''imageUri''
      in case imageUri of
           None \<Rightarrow> Inl (Error ''imageUri environment variable is required'')
         | Some imageUri \<Rightarrow>
             if imageUri = [] then Inl (Error ''imageUri environment variable is required'')
             else
               let memorySize = parseInt (or_default (process_env ''memorySize'') ''1024'') 10;
                   timeout = parseInt (or_default (process_env ''timeout'') ''900'') 10;
                   autoDeleteObjects = (process_env ''autoDeleteObjects'' = Some ''true'');
                   uriParts = split imageUri (CHR ''/'');
                   repoAndTag = join (slice uriParts 1) ''/'';
                   (repoName, imageTag) = destructure2 (split repoAndTag (CHR '':'')) ''latest'';
                   inputBucket = ''InputBucket'';
                   this = new this inputBucket (Bucket \<lparr>
                     bucketName = toLowerCase (prefix @ ''-input-'' @ stackName this),
                     versioned = True,
                     removalPolicy = (if autoDeleteObjects then DESTROY else RETAIN),
                     autoDeleteObjects = autoDeleteObjects,
                     blockPublicAccess = BLOCK_ALL,
                     encryption = S3_MANAGED\<rparr>);
                   outputBucket = ''OutputBucket'';
                   this = new this outputBucket (Bucket \<lparr>
                     bucketName = toLowerCase (prefix @ ''-output-'' @ stackName this),
                     versioned = True,
                     removalPolicy = (if autoDeleteObjects then DESTROY else RETAIN),
                     autoDeleteObjects = autoDeleteObjects,
                     blockPublicAccess = BLOCK_ALL,
                     encryption = S3_MANAGED\<rparr>);
                   inputQueue = ''InputQueue'';
                   this = new this inputQueue (Queue \<lparr>
                     queueName = toLowerCase (prefix @ ''-input-'' @ stackName this),
                     visibilityTimeout = Duration_seconds (times_js timeout (Num 6)),
                     retentionPeriod = Duration_days (Num 14)\<rparr>);
                   outputQueue = ''OutputQueue'';
                   this = new this outputQueue (Queue \<lparr>
                     queueName = toLowerCase (prefix @ ''-output-'' @ stackName this),
                     visibilityTimeout = Duration_seconds (Num 30),
                     retentionPeriod = Duration_days (Num 14)\<rparr>);
                   repository = ''EcrRepo'';
                   this = new this repository (Repository repoName);
                   fn = ''AgentFunction'';
                   this = new this fn (DockerImageFunction \<lparr>
                     functionName = toLowerCase (prefix @ ''-'' @ stackName this),
                     code = fromEcr repository imageTag,
                     memorySize = memorySize,
                     timeout = Duration_seconds timeout,
                     environment =
                       [(''INPUT_BUCKET'', [Attr inputBucket ''bucketName'']),
                        (''OUTPUT_BUCKET'', [Attr outputBucket ''bucketName'']),
                        (''OUTPUT_SQS_QUEUE_URL'', [Attr outputQueue ''queueUrl''])]\<rparr>);
                   this = grantRead this inputBucket fn;
                   this = grantWrite this outputBucket fn;
                   this = grantSendMessages this outputQueue fn;
                   this = addEventSource this fn (SqsEventSource inputQueue \<lparr>batchSize = 1\<rparr>);
                   consumerPolicy = \<lparr>statements =
                     [\<lparr>effect = ALLOW,
                       actions = [''s3:PutObject''],
                       resources = [[Attr inputBucket ''bucketArn'', Lit ''/*'']]\<rparr>,
                      \<lparr>effect = ALLOW,
                       actions = [''sqs:SendMessage''],
                       resources = [[Attr inputQueue ''queueArn'']]\<rparr>,
                      \<lparr>effect = ALLOW,
                       actions = [''s3:GetObject''],
                       resources = [[Attr outputBucket ''bucketArn'', Lit ''/*'']]\<rparr>,
                      \<lparr>effect = ALLOW,
                       actions = [''s3:ListBucket''],
                       resources = [[Attr outputBucket ''bucketArn'']]\<rparr>,
                      \<lparr>effect = ALLOW,
                       actions = [''sqs:ReceiveMessage'', ''sqs:DeleteMessage'',
                                  ''sqs:GetQueueAttributes''],
                       resources = [[Attr outputQueue ''queueArn'']]\<rparr>]\<rparr>;
                   this = new this ''inputBucketName'' (CfnOutput \<lparr>
                     outputValue = Text [Attr inputBucket ''bucketName''],
                     description = ''Name of the input S3 bucket''\<rparr>);
                   this = new this ''inputQueueUrl'' (CfnOutput \<lparr>
                     outputValue = Text [Attr inputQueue ''queueUrl''],
                     description = ''URL of the input SQS queue''\<rparr>);
                   this = new this ''outputBucketName'' (CfnOutput \<lparr>
                     outputValue = Text [Attr outputBucket ''bucketName''],
                     description = ''Name of the output S3 bucket''\<rparr>);
                   this = new this ''outputQueueUrl'' (CfnOutput \<lparr>
                     outputValue = Text [Attr outputQueue ''queueUrl''],
                     description = ''URL of the output SQS queue''\<rparr>);
                   this = new this ''lambdaFunctionName'' (CfnOutput \<lparr>
                     outputValue = Text [Attr fn ''functionName''],
                     description = ''Name of the Lambda function''\<rparr>);
                   this = new this ''awsRegion'' (CfnOutput \<lparr>
                     outputValue = Text [ThisRegion],
                     description = ''AWS region''\<rparr>);
                   this = new this ''iamPolicyClaudeAgentClient'' (CfnOutput \<lparr>
                     outputValue = Json consumerPolicy,
                     description = ''IAM policy document for consumer applications''\<rparr>)
               in Inr this)"

section \<open>Reading a constructed stack\<close>

text \<open>\<open>node.tryFindChild(id)\<close>, and the properties of a child of a given kind.\<close>

definition tryFindChild :: "Stack \<Rightarrow> string \<Rightarrow> Construct option" where
  "tryFindChild s cid = map_of (children s) cid"

definition theBucket :: "Stack \<Rightarrow> string \<Rightarrow> BucketProps option" where
  "theBucket s cid = (case tryFindChild s cid of Some (Bucket p) \<Rightarrow> Some p | _ \<Rightarrow> None)"

definition theQueue :: "Stack \<Rightarrow> string \<Rightarrow> QueueProps option" where
  "theQueue s cid = (case tryFindChild s cid of Some (Queue p) \<Rightarrow> Some p | _ \<Rightarrow> None)"



definition theOutput :: "Stack \<Rightarrow> string \<Rightarrow> OutputValue option" where
  "theOutput s cid =
     (case tryFindChild s cid of Some (CfnOutput p) \<Rightarrow> Some (outputValue p) | _ \<Rightarrow> None)"

definition thePolicy :: "Stack \<Rightarrow> string \<Rightarrow> PolicyDocument option" where
  "thePolicy s cid = (case theOutput s cid of Some (Json doc) \<Rightarrow> Some doc | _ \<Rightarrow> None)"


text \<open>The ids of the children that are buckets, and of those that are queues, as a
  template's resource count by type reads them.\<close>

fun isBucket :: "Construct \<Rightarrow> bool" where
  "isBucket (Bucket _) = True"
| "isBucket _ = False"

fun isQueue :: "Construct \<Rightarrow> bool" where
  "isQueue (Queue _) = True"
| "isQueue _ = False"

definition bucketIds :: "Stack \<Rightarrow> string list" where
  "bucketIds s = map fst (filter (\<lambda>(cid, c). isBucket c) (children s))"

definition queueIds :: "Stack \<Rightarrow> string list" where
  "queueIds s = map fst (filter (\<lambda>(cid, c). isQueue c) (children s))"

text \<open>What a policy document grants: every (effect, action, resource) of its statements.\<close>

definition permissions :: "PolicyDocument \<Rightarrow> (Effect \<times> string \<times> tstring) list" where
  "permissions doc =
     concat (map (\<lambda>st. concat (map (\<lambda>a. map (\<lambda>r. (effect st, a, r)) (resources st)) (actions st)))
       (statements doc))"

section \<open>Test fixtures\<close>


text \<open>The environment the repository's test suite sets up before each test, and the id it
  constructs the stack with.\<close>

definition TEST_IMAGE_URI :: string where
  "TEST_IMAGE_URI = ''123456789012.dkr.ecr.us-east-1.amazonaws.com/my-agent:latest''"

definition test_env :: env where
  "test_env = [''imageUri'' \<mapsto> TEST_IMAGE_URI]"

section \<open>Facts about the JavaScript operations\<close>


















section \<open>Facts about the constructor\<close>

lemmas ctor_defs = HereyaClaudeAgentStack_def Let_def super_def new_def grantRead_def grantWrite_def
  grantSendMessages_def addEventSource_def


lemma ctor_succeeds:
  assumes "process_env ''imageUri'' = Some u" and "u \<noteq> []"
  shows "\<not> isl (HereyaClaudeAgentStack process_env stackId)"
  using assms by (simp add: HereyaClaudeAgentStack_def Let_def case_prod_beta)

lemma ctor_Inr_imageUri:
  assumes "HereyaClaudeAgentStack process_env stackId = Inr s"
  shows "\<exists>u. process_env ''imageUri'' = Some u \<and> u \<noteq> []"
proof (cases "process_env ''imageUri''")
  case None
  with assms show ?thesis by (simp add: HereyaClaudeAgentStack_def)
next
  case (Some u)
  with assms have "u \<noteq> []" by (auto simp add: HereyaClaudeAgentStack_def)
  with Some show ?thesis by simp
qed


lemma test_env_imageUri: "test_env ''imageUri'' = Some TEST_IMAGE_URI \<and> TEST_IMAGE_URI \<noteq> []"
  by (simp add: test_env_def TEST_IMAGE_URI_def)

text \<open>A successful construction, in full: the name of the stack and its children.\<close>

lemma ctor_shape:
  fixes process_env :: env
  defines "prefix \<equiv> or_default (process_env ''namePrefix'') ''agent''"
    and "T \<equiv> parseInt (or_default (process_env ''timeout'') ''900'') 10"
    and "M \<equiv> parseInt (or_default (process_env ''memorySize'') ''1024'') 10"
    and "del \<equiv> (process_env ''autoDeleteObjects'' = Some ''true'')"
  assumes "HereyaClaudeAgentStack process_env stackId = Inr s"
    and "process_env ''imageUri'' = Some u"
  shows "stackName s = stackId \<and> children s =
    [(''InputBucket'', Bucket \<lparr>bucketName = toLowerCase (prefix @ ''-input-'' @ stackId),
        versioned = True, removalPolicy = (if del then DESTROY else RETAIN),
        autoDeleteObjects = del, blockPublicAccess = BLOCK_ALL, encryption = S3_MANAGED\<rparr>),
     (''OutputBucket'', Bucket \<lparr>bucketName = toLowerCase (prefix @ ''-output-'' @ stackId),
        versioned = True, removalPolicy = (if del then DESTROY else RETAIN),
        autoDeleteObjects = del, blockPublicAccess = BLOCK_ALL, encryption = S3_MANAGED\<rparr>),
     (''InputQueue'', Queue \<lparr>queueName = toLowerCase (prefix @ ''-input-'' @ stackId),
        visibilityTimeout = Duration (times_js T (Num 6)) Seconds,
        retentionPeriod = Duration (Num 14) Days\<rparr>),
     (''OutputQueue'', Queue \<lparr>queueName = toLowerCase (prefix @ ''-output-'' @ stackId),
        visibilityTimeout = Duration (Num 30) Seconds,
        retentionPeriod = Duration (Num 14) Days\<rparr>),
     (''EcrRepo'', Repository
        (fst (destructure2 (split (join (slice (split u (CHR ''/'')) 1) ''/'') (CHR '':'')) ''latest''))),
     (''AgentFunction'', DockerImageFunction \<lparr>functionName = toLowerCase (prefix @ ''-'' @ stackId),
        code = fromEcr ''EcrRepo''
          (snd (destructure2 (split (join (slice (split u (CHR ''/'')) 1) ''/'') (CHR '':'')) ''latest'')),
        memorySize = M, timeout = Duration T Seconds,
        environment =
          [(''INPUT_BUCKET'', [Attr ''InputBucket'' ''bucketName'']),
           (''OUTPUT_BUCKET'', [Attr ''OutputBucket'' ''bucketName'']),
           (''OUTPUT_SQS_QUEUE_URL'', [Attr ''OutputQueue'' ''queueUrl''])]\<rparr>),
     (''inputBucketName'', CfnOutput \<lparr>outputValue = Text [Attr ''InputBucket'' ''bucketName''],
        description = ''Name of the input S3 bucket''\<rparr>),
     (''inputQueueUrl'', CfnOutput \<lparr>outputValue = Text [Attr ''InputQueue'' ''queueUrl''],
        description = ''URL of the input SQS queue''\<rparr>),
     (''outputBucketName'', CfnOutput \<lparr>outputValue = Text [Attr ''OutputBucket'' ''bucketName''],
        description = ''Name of the output S3 bucket''\<rparr>),
     (''outputQueueUrl'', CfnOutput \<lparr>outputValue = Text [Attr ''OutputQueue'' ''queueUrl''],
        description = ''URL of the output SQS queue''\<rparr>),
     (''lambdaFunctionName'', CfnOutput \<lparr>outputValue = Text [Attr ''AgentFunction'' ''functionName''],
        description = ''Name of the Lambda function''\<rparr>),
     (''awsRegion'', CfnOutput \<lparr>outputValue = Text [ThisRegion], description = ''AWS region''\<rparr>),
     (''iamPolicyClaudeAgentClient'', CfnOutput \<lparr>outputValue = Json \<lparr>statements =
          [\<lparr>effect = ALLOW, actions = [''s3:PutObject''],
             resources = [[Attr ''InputBucket'' ''bucketArn'', Lit ''/*'']]\<rparr>,
           \<lparr>effect = ALLOW, actions = [''sqs:SendMessage''],
             resources = [[Attr ''InputQueue'' ''queueArn'']]\<rparr>,
           \<lparr>effect = ALLOW, actions = [''s3:GetObject''],
             resources = [[Attr ''OutputBucket'' ''bucketArn'', Lit ''/*'']]\<rparr>,
           \<lparr>effect = ALLOW, actions = [''s3:ListBucket''],
             resources = [[Attr ''OutputBucket'' ''bucketArn'']]\<rparr>,
           \<lparr>effect = ALLOW,
             actions = [''sqs:ReceiveMessage'', ''sqs:DeleteMessage'', ''sqs:GetQueueAttributes''],
             resources = [[Attr ''OutputQueue'' ''queueArn'']]\<rparr>]\<rparr>,
        description = ''IAM policy document for consumer applications''\<rparr>)]"
  using assms
  by (clarsimp simp add: ctor_defs case_prod_beta Duration_seconds_def Duration_days_def
        split: if_splits)

text \<open>What each declared child holds, read off the shape.\<close>

lemma ctor_InputBucket:
  assumes "HereyaClaudeAgentStack process_env stackId = Inr s"
  shows "theBucket s ''InputBucket'' = Some \<lparr>
           bucketName = toLowerCase (or_default (process_env ''namePrefix'') ''agent'' @ ''-input-'' @ stackId),
           versioned = True,
           removalPolicy = (if process_env ''autoDeleteObjects'' = Some ''true'' then DESTROY else RETAIN),
           autoDeleteObjects = (process_env ''autoDeleteObjects'' = Some ''true''),
           blockPublicAccess = BLOCK_ALL, encryption = S3_MANAGED\<rparr>"
proof -
  from ctor_Inr_imageUri [OF assms] obtain u where u: "process_env ''imageUri'' = Some u"
    by blast
  show ?thesis
    by (simp add: theBucket_def tryFindChild_def ctor_shape [OF assms u])
qed

lemma ctor_OutputBucket:
  assumes "HereyaClaudeAgentStack process_env stackId = Inr s"
  shows "theBucket s ''OutputBucket'' = Some \<lparr>
           bucketName = toLowerCase (or_default (process_env ''namePrefix'') ''agent'' @ ''-output-'' @ stackId),
           versioned = True,
           removalPolicy = (if process_env ''autoDeleteObjects'' = Some ''true'' then DESTROY else RETAIN),
           autoDeleteObjects = (process_env ''autoDeleteObjects'' = Some ''true''),
           blockPublicAccess = BLOCK_ALL, encryption = S3_MANAGED\<rparr>"
proof -
  from ctor_Inr_imageUri [OF assms] obtain u where u: "process_env ''imageUri'' = Some u"
    by blast
  show ?thesis
    by (simp add: theBucket_def tryFindChild_def ctor_shape [OF assms u])
qed

lemma ctor_InputQueue:
  assumes "HereyaClaudeAgentStack process_env stackId = Inr s"
  shows "theQueue s ''InputQueue'' = Some \<lparr>
           queueName = toLowerCase (or_default (process_env ''namePrefix'') ''agent'' @ ''-input-'' @ stackId),
           visibilityTimeout =
             Duration (times_js (parseInt (or_default (process_env ''timeout'') ''900'') 10) (Num 6)) Seconds,
           retentionPeriod = Duration (Num 14) Days\<rparr>"
proof -
  from ctor_Inr_imageUri [OF assms] obtain u where u: "process_env ''imageUri'' = Some u"
    by blast
  show ?thesis
    by (simp add: theQueue_def tryFindChild_def ctor_shape [OF assms u])
qed

lemma ctor_OutputQueue:
  assumes "HereyaClaudeAgentStack process_env stackId = Inr s"
  shows "theQueue s ''OutputQueue'' = Some \<lparr>
           queueName = toLowerCase (or_default (process_env ''namePrefix'') ''agent'' @ ''-output-'' @ stackId),
           visibilityTimeout = Duration (Num 30) Seconds,
           retentionPeriod = Duration (Num 14) Days\<rparr>"
proof -
  from ctor_Inr_imageUri [OF assms] obtain u where u: "process_env ''imageUri'' = Some u"
    by blast
  show ?thesis
    by (simp add: theQueue_def tryFindChild_def ctor_shape [OF assms u])
qed



lemma ctor_policy:
  assumes "HereyaClaudeAgentStack process_env stackId = Inr s"
  shows "thePolicy s ''iamPolicyClaudeAgentClient'' = Some \<lparr>statements =
          [\<lparr>effect = ALLOW, actions = [''s3:PutObject''],
             resources = [[Attr ''InputBucket'' ''bucketArn'', Lit ''/*'']]\<rparr>,
           \<lparr>effect = ALLOW, actions = [''sqs:SendMessage''],
             resources = [[Attr ''InputQueue'' ''queueArn'']]\<rparr>,
           \<lparr>effect = ALLOW, actions = [''s3:GetObject''],
             resources = [[Attr ''OutputBucket'' ''bucketArn'', Lit ''/*'']]\<rparr>,
           \<lparr>effect = ALLOW, actions = [''s3:ListBucket''],
             resources = [[Attr ''OutputBucket'' ''bucketArn'']]\<rparr>,
           \<lparr>effect = ALLOW,
             actions = [''sqs:ReceiveMessage'', ''sqs:DeleteMessage'', ''sqs:GetQueueAttributes''],
             resources = [[Attr ''OutputQueue'' ''queueArn'']]\<rparr>]\<rparr>"
proof -
  from ctor_Inr_imageUri [OF assms] obtain u where u: "process_env ''imageUri'' = Some u"
    by blast
  show ?thesis
    by (simp add: thePolicy_def theOutput_def tryFindChild_def ctor_shape [OF assms u])
qed

lemma ctor_kinds:
  assumes "HereyaClaudeAgentStack process_env stackId = Inr s"
  shows "bucketIds s = [''InputBucket'', ''OutputBucket'']
       \<and> queueIds s = [''InputQueue'', ''OutputQueue'']"
proof -
  from ctor_Inr_imageUri [OF assms] obtain u where u: "process_env ''imageUri'' = Some u"
    by blast
  show ?thesis
    by (simp add: bucketIds_def queueIds_def ctor_shape [OF assms u])
qed

lemma ctor_collapse:
  assumes "process_env ''imageUri'' = Some u" and "u \<noteq> []"
  shows "HereyaClaudeAgentStack process_env stackId =
           Inr (projr (HereyaClaudeAgentStack process_env stackId))"
  using assms ctor_succeeds [of process_env u stackId] by simp


lemma test_env_collapse:
  "HereyaClaudeAgentStack test_env ''TestStack'' =
     Inr (projr (HereyaClaudeAgentStack test_env ''TestStack''))"
  using test_env_imageUri ctor_collapse [of test_env TEST_IMAGE_URI "''TestStack''"] by simp



lemma times_js_Num:
  "\<bar>x * y\<bar> \<le> 2 ^ 53 \<Longrightarrow> times_js (Num x) (Num y) = Num (x * y)"
  by (simp add: to_number_def)






section \<open>The claims\<close>





text \<open>
  C3. The consumer policy document grants exactly seven (effect, action, resource)
  triples, all \<open>ALLOW\<close>: \<open>s3:PutObject\<close> on the objects of the input bucket,
  \<open>sqs:SendMessage\<close> on the input queue, \<open>s3:GetObject\<close> on the objects of the output
  bucket and \<open>s3:ListBucket\<close> on that bucket, and \<open>sqs:ReceiveMessage\<close>,
  \<open>sqs:DeleteMessage\<close> and \<open>sqs:GetQueueAttributes\<close> on the output queue; the ids the
  resources name are those of the two buckets and the two queues.
\<close>

theorem C3_consumer_policy_permissions:
  assumes "HereyaClaudeAgentStack process_env stackId = Inr s"
  shows "map_option permissions (thePolicy s ''iamPolicyClaudeAgentClient'') = Some
          [(ALLOW, ''s3:PutObject'', [Attr ''InputBucket'' ''bucketArn'', Lit ''/*'']),
           (ALLOW, ''sqs:SendMessage'', [Attr ''InputQueue'' ''queueArn'']),
           (ALLOW, ''s3:GetObject'', [Attr ''OutputBucket'' ''bucketArn'', Lit ''/*'']),
           (ALLOW, ''s3:ListBucket'', [Attr ''OutputBucket'' ''bucketArn'']),
           (ALLOW, ''sqs:ReceiveMessage'', [Attr ''OutputQueue'' ''queueArn'']),
           (ALLOW, ''sqs:DeleteMessage'', [Attr ''OutputQueue'' ''queueArn'']),
           (ALLOW, ''sqs:GetQueueAttributes'', [Attr ''OutputQueue'' ''queueArn''])]
       \<and> bucketIds s = [''InputBucket'', ''OutputBucket'']
       \<and> queueIds s = [''InputQueue'', ''OutputQueue'']"
  by (simp add: ctor_policy [OF assms] ctor_kinds [OF assms] permissions_def)

text \<open>C3 at the test suite's environment.\<close>

theorem C3_witness:
  "\<not> isl (HereyaClaudeAgentStack test_env ''TestStack'')
   \<and> map_option permissions
       (thePolicy (projr (HereyaClaudeAgentStack test_env ''TestStack'')) ''iamPolicyClaudeAgentClient'')
     = Some
          [(ALLOW, ''s3:PutObject'', [Attr ''InputBucket'' ''bucketArn'', Lit ''/*'']),
           (ALLOW, ''sqs:SendMessage'', [Attr ''InputQueue'' ''queueArn'']),
           (ALLOW, ''s3:GetObject'', [Attr ''OutputBucket'' ''bucketArn'', Lit ''/*'']),
           (ALLOW, ''s3:ListBucket'', [Attr ''OutputBucket'' ''bucketArn'']),
           (ALLOW, ''sqs:ReceiveMessage'', [Attr ''OutputQueue'' ''queueArn'']),
           (ALLOW, ''sqs:DeleteMessage'', [Attr ''OutputQueue'' ''queueArn'']),
           (ALLOW, ''sqs:GetQueueAttributes'', [Attr ''OutputQueue'' ''queueArn''])]"
  using test_env_collapse C3_consumer_policy_permissions [OF test_env_collapse]
  by (metis sum.disc(2))









text \<open>
  C7. A constructed stack has exactly two children that are buckets and exactly two that
  are queues.
\<close>

theorem C7_two_buckets_two_queues:
  assumes "HereyaClaudeAgentStack process_env stackId = Inr s"
  shows "length (bucketIds s) = 2 \<and> length (queueIds s) = 2
       \<and> bucketIds s = [''InputBucket'', ''OutputBucket'']
       \<and> queueIds s = [''InputQueue'', ''OutputQueue'']"
  by (simp add: ctor_kinds [OF assms])

text \<open>
  C7 at the test suite's environment.
\<close>

theorem C7_witness:
  "\<not> isl (HereyaClaudeAgentStack test_env ''TestStack'')
   \<and> length (bucketIds (projr (HereyaClaudeAgentStack test_env ''TestStack''))) = 2
   \<and> length (queueIds (projr (HereyaClaudeAgentStack test_env ''TestStack''))) = 2"
proof -
  have ok: "\<not> isl (HereyaClaudeAgentStack test_env ''TestStack'')"
    using test_env_imageUri ctor_succeeds [of test_env TEST_IMAGE_URI "''TestStack''"] by simp
  from C7_two_buckets_two_queues [OF test_env_collapse] ok show ?thesis by blast
qed




text \<open>
  C9. Whatever the environment, the output queue's visibility timeout is 30 seconds and
  both queues retain messages for 14 days.
\<close>

theorem C9_fixed_queue_durations:
  assumes "HereyaClaudeAgentStack process_env stackId = Inr s"
  shows "map_option visibilityTimeout (theQueue s ''OutputQueue'') = Some (Duration (Num 30) Seconds)
       \<and> map_option retentionPeriod (theQueue s ''OutputQueue'') = Some (Duration (Num 14) Days)
       \<and> map_option retentionPeriod (theQueue s ''InputQueue'') = Some (Duration (Num 14) Days)"
  by (simp add: ctor_InputQueue [OF assms] ctor_OutputQueue [OF assms])

text \<open>
  C9 at \<open>timeout = 300\<close>: the input does not reach the output queue.
\<close>

theorem C9_witness:
  "\<not> isl (HereyaClaudeAgentStack (test_env(''timeout'' \<mapsto> ''300'')) ''TestStack'')
   \<and> map_option visibilityTimeout
       (theQueue (projr (HereyaClaudeAgentStack (test_env(''timeout'' \<mapsto> ''300'')) ''TestStack''))
          ''OutputQueue'') = Some (Duration (Num 30) Seconds)
   \<and> map_option retentionPeriod
       (theQueue (projr (HereyaClaudeAgentStack (test_env(''timeout'' \<mapsto> ''300'')) ''TestStack''))
          ''OutputQueue'') = Some (Duration (Num 14) Days)
   \<and> map_option retentionPeriod
       (theQueue (projr (HereyaClaudeAgentStack (test_env(''timeout'' \<mapsto> ''300'')) ''TestStack''))
          ''InputQueue'') = Some (Duration (Num 14) Days)"
proof -
  let ?env = "test_env(''timeout'' \<mapsto> ''300'')"
  have u: "?env ''imageUri'' = Some TEST_IMAGE_URI" "TEST_IMAGE_URI \<noteq> []"
    using test_env_imageUri by simp_all
  have ok: "\<not> isl (HereyaClaudeAgentStack ?env ''TestStack'')"
    using u by (rule ctor_succeeds)
  have h: "HereyaClaudeAgentStack ?env ''TestStack'' =
      Inr (projr (HereyaClaudeAgentStack ?env ''TestStack''))"
    using u by (rule ctor_collapse)
  from C9_fixed_queue_durations [OF h] ok show ?thesis by blast
qed

text \<open>
  C10. With \<open>del\<close> the truth of \<open>process.env.autoDeleteObjects === 'true'\<close>: both buckets
  have removal policy \<open>DESTROY\<close> and auto-deletion when \<open>del\<close>, and \<open>RETAIN\<close> without
  auto-deletion otherwise; the two buckets always have the same removal policy.
\<close>

theorem C10_removal_policy_by_strict_equality:
  assumes "HereyaClaudeAgentStack process_env stackId = Inr s"
    and "del = (process_env ''autoDeleteObjects'' = Some ''true'')"
  shows "map_option removalPolicy (theBucket s ''InputBucket'') = Some (if del then DESTROY else RETAIN)
       \<and> map_option removalPolicy (theBucket s ''OutputBucket'') = Some (if del then DESTROY else RETAIN)
       \<and> map_option autoDeleteObjects (theBucket s ''InputBucket'') = Some del
       \<and> map_option autoDeleteObjects (theBucket s ''OutputBucket'') = Some del
       \<and> map_option removalPolicy (theBucket s ''InputBucket'')
           = map_option removalPolicy (theBucket s ''OutputBucket'')"
  by (simp add: ctor_InputBucket [OF assms(1)] ctor_OutputBucket [OF assms(1)] assms(2))

text \<open>
  C10 at \<open>true\<close>, \<open>True\<close>, \<open>1\<close>, \<open>yes\<close> and at the unset variable.
\<close>

theorem C10_witness:
  "\<not> isl (HereyaClaudeAgentStack (test_env(''autoDeleteObjects'' \<mapsto> ''true'')) ''TestStack'')
   \<and> map_option removalPolicy
       (theBucket (projr (HereyaClaudeAgentStack (test_env(''autoDeleteObjects'' \<mapsto> ''true'')) ''TestStack''))
          ''InputBucket'') = Some DESTROY
   \<and> map_option removalPolicy
       (theBucket (projr (HereyaClaudeAgentStack (test_env(''autoDeleteObjects'' \<mapsto> ''true'')) ''TestStack''))
          ''OutputBucket'') = Some DESTROY
   \<and> map_option removalPolicy
       (theBucket (projr (HereyaClaudeAgentStack (test_env(''autoDeleteObjects'' \<mapsto> ''True'')) ''TestStack''))
          ''InputBucket'') = Some RETAIN
   \<and> map_option removalPolicy
       (theBucket (projr (HereyaClaudeAgentStack (test_env(''autoDeleteObjects'' \<mapsto> ''1'')) ''TestStack''))
          ''InputBucket'') = Some RETAIN
   \<and> map_option removalPolicy
       (theBucket (projr (HereyaClaudeAgentStack (test_env(''autoDeleteObjects'' \<mapsto> ''yes'')) ''TestStack''))
          ''OutputBucket'') = Some RETAIN
   \<and> map_option removalPolicy
       (theBucket (projr (HereyaClaudeAgentStack test_env ''TestStack'')) ''InputBucket'') = Some RETAIN
   \<and> map_option autoDeleteObjects
       (theBucket (projr (HereyaClaudeAgentStack test_env ''TestStack'')) ''OutputBucket'') = Some False"
proof -
  have set_flag: "map_option removalPolicy
        (theBucket (projr (HereyaClaudeAgentStack (test_env(''autoDeleteObjects'' \<mapsto> v)) ''TestStack'')) b)
      = Some (if v = ''true'' then DESTROY else RETAIN)"
    if "b = ''InputBucket'' \<or> b = ''OutputBucket''" for v b
  proof -
    let ?env = "test_env(''autoDeleteObjects'' \<mapsto> v)"
    have u: "?env ''imageUri'' = Some TEST_IMAGE_URI" "TEST_IMAGE_URI \<noteq> []"
      using test_env_imageUri by simp_all
    have h: "HereyaClaudeAgentStack ?env ''TestStack'' =
        Inr (projr (HereyaClaudeAgentStack ?env ''TestStack''))"
      using u by (rule ctor_collapse)
    have d: "(v = ''true'') = (?env ''autoDeleteObjects'' = Some ''true'')"
      by auto
    from C10_removal_policy_by_strict_equality [OF h d] that show ?thesis
      by blast
  qed
  have unset: "test_env ''autoDeleteObjects'' = None"
    by (simp add: test_env_def)
  then have d0: "False = (test_env ''autoDeleteObjects'' = Some ''true'')"
    by simp
  note r0 = C10_removal_policy_by_strict_equality [OF test_env_collapse d0]
  have ok: "\<not> isl (HereyaClaudeAgentStack (test_env(''autoDeleteObjects'' \<mapsto> ''true'')) ''TestStack'')"
    using test_env_imageUri
      ctor_succeeds [of "test_env(''autoDeleteObjects'' \<mapsto> ''true'')" TEST_IMAGE_URI "''TestStack''"]
    by simp
  from ok r0 set_flag [of "''InputBucket''" "''true''"] set_flag [of "''OutputBucket''" "''true''"]
    set_flag [of "''InputBucket''" "''True''"] set_flag [of "''InputBucket''" "''1''"]
    set_flag [of "''OutputBucket''" "''yes''"]
  show ?thesis by simp
qed

end
